theory Spec2Isabelle
  imports Complex_Main
begin

section \<open>Browser storage and JSON text\<close>

text \<open>
  The storefront keeps its state in \<open>localStorage\<close> and \<open>sessionStorage\<close>: maps from a key to
  a string, \<open>getItem\<close> giving \<open>null\<close> for an absent key. Every key is written by the program
  with \<open>JSON.stringify\<close> of one shape of value only, and read back with \<open>JSON.parse\<close>.

  A stored string is represented by what \<open>JSON.parse\<close> makes of it: \<open>Json v\<close> is the text that
  parses to the value \<open>v\<close> (the text \<open>JSON.stringify v\<close>), and \<open>Invalid s\<close> is a string \<open>s\<close>
  that is not valid JSON, on which \<open>JSON.parse\<close> throws a \<open>SyntaxError\<close>. The empty string is
  \<open>Invalid []\<close>; it is the one string that JavaScript treats as falsy. Valid JSON text of a
  shape the program never writes under that key is outside the model.

  Numbers: identifiers and quantities are integers (below \<open>2^53\<close> in size, where the doubles
  are the integers). Prices and amounts are doubles, each represented by its exact rational
  value; the arithmetic on them is that of IEEE 754, see below.
\<close>

datatype js_error = SyntaxError

datatype 'a stored = Json 'a | Invalid string

text \<open>
  Truthiness of a stored string: every string but the empty one. JSON text is never empty.
\<close>

definition truthy_text :: "'a stored \<Rightarrow> bool" where
  "truthy_text t = (case t of Json v \<Rightarrow> True | Invalid s \<Rightarrow> s \<noteq> [])"

definition JSON_parse :: "'a stored \<Rightarrow> js_error + 'a" where
  "JSON_parse t = (case t of Json v \<Rightarrow> Inr v | Invalid s \<Rightarrow> Inl SyntaxError)"

definition JSON_stringify :: "'a \<Rightarrow> 'a stored" where
  "JSON_stringify v = Json v"

text \<open>Truthiness of a string or \<open>null\<close>/\<open>undefined\<close> value, and the idiom \<open>x || d\<close>.\<close>

definition truthy :: "string option \<Rightarrow> bool" where
  "truthy x = (case x of None \<Rightarrow> False | Some s \<Rightarrow> s \<noteq> [])"

definition or_default :: "string option \<Rightarrow> string \<Rightarrow> string" where
  "or_default x d = (case x of None \<Rightarrow> d | Some s \<Rightarrow> if s = [] then d else s)"

subsection \<open>Numbers as text\<close>

fun digits_radix :: "nat \<Rightarrow> nat \<Rightarrow> string" where
  "digits_radix r n =
     (if r < 2 \<or> n < r then [''0123456789abcdefghijklmnopqrstuvwxyz'' ! n]
      else digits_radix r (n div r) @ [''0123456789abcdefghijklmnopqrstuvwxyz'' ! (n mod r)])"

declare digits_radix.simps [simp del]

text \<open>\<open>String(n)\<close> of an integer, as a template literal renders it.\<close>

definition Number_toString :: "int \<Rightarrow> string" where
  "Number_toString i = (if i < 0 then ''-'' @ digits_radix 10 (nat (- i)) else digits_radix 10 (nat i))"

subsection \<open>Doubles\<close>

text \<open>
  A JavaScript number is an IEEE 754 double. A finite double is represented by the rational
  it stands for, and \<open>round_to_double\<close> takes a rational to the double nearest to it, ties
  to the even significand: \<open>53\<close> significant bits, with the fixed step \<open>2^-1074\<close> below
  \<open>2^-1022\<close> (the subnormal range). Every sum and product of the code is the exact result
  rounded so, and a decimal literal such as \<open>9.99\<close> denotes the double nearest to it.
  Amounts stay in the finite range: the overflow to \<open>Infinity\<close> (from \<open>2^1024\<close>) is not
  represented, and \<open>-0\<close> is not told from \<open>0\<close> (\<open>JSON.stringify\<close> writes both as \<open>0\<close>).
\<close>

text \<open>The number of binary digits of a positive integer.\<close>

function bit_length :: "int \<Rightarrow> int" where
  "bit_length n = (if n \<le> 0 then 0 else bit_length (n div 2) + 1)"
  by pat_completeness auto
termination
  by (relation "measure nat") auto

declare bit_length.simps [simp del]

text \<open>For \<open>x > 0\<close>, the exponent \<open>e\<close> with \<open>2^e \<le> x < 2^(e+1)\<close>.\<close>

definition double_exponent :: "rat \<Rightarrow> int" where
  "double_exponent x =
     (if 1 \<le> x then bit_length \<lfloor>x\<rfloor> - 1 else - bit_length (\<lceil>1 / x\<rceil> - 1))"

definition pow2 :: "int \<Rightarrow> rat" where
  "pow2 i = (if 0 \<le> i then 2 ^ nat i else 1 / 2 ^ nat (- i))"

definition round_half_even :: "rat \<Rightarrow> int" where
  "round_half_even q =
     (let f = \<lfloor>q\<rfloor>; r = q - of_int f
      in if r < 1 / 2 then f else if 1 / 2 < r then f + 1 else if even f then f else f + 1)"

definition round_to_double :: "rat \<Rightarrow> rat" where
  "round_to_double x =
     (if x = 0 then 0
      else
        let e = max (double_exponent \<bar>x\<bar>) (- 1022);
            ulp = pow2 (e - 52)
        in sgn x * of_int (round_half_even (\<bar>x\<bar> / ulp)) * ulp)"

section \<open>Data model\<close>

text \<open>
  A catalog product. The catalog carries more fields (description, category, flags, sizes,
  colors); the cart and the checkout read none of them.
\<close>

record product =
  product_id :: int
  product_name :: string
  product_price :: rat
  product_image :: string

record cart_item =
  item_id :: int
  item_name :: string
  item_price :: rat
  item_image :: string
  quantity :: int
  item_size :: "string option"
  item_color :: "string option"
  addedAt :: string

record buyNowItem =
  bn_id :: int
  bn_name :: string
  bn_price :: rat
  bn_image :: string
  bn_quantity :: int
  bn_size :: "string option"
  bn_color :: "string option"
  isBuyNow :: bool

text \<open>
  The value of an amount in \<open>processOrder\<close>: a finite double, or \<open>NaN\<close>, which \<open>+\<close> and
  \<open>*\<close> give as soon as an operand is \<open>NaN\<close> or \<open>undefined\<close>.
\<close>

datatype jsnum = NaN | Num rat

fun jsnum_add :: "jsnum \<Rightarrow> jsnum \<Rightarrow> jsnum" where
  "jsnum_add (Num a) (Num b) = Num (round_to_double (a + b))"
| "jsnum_add _ _ = NaN"

fun jsnum_mul :: "jsnum \<Rightarrow> jsnum \<Rightarrow> jsnum" where
  "jsnum_mul (Num a) (Num b) = Num (round_to_double (a * b))"
| "jsnum_mul _ _ = NaN"

text \<open>
  An amount as JSON text holds it: \<open>JSON.stringify\<close> writes a finite double as a number
  that parses back to the same double, and writes \<open>NaN\<close> as \<open>null\<close>.
\<close>

datatype json_number = Null | Number rat

definition JSON_number :: "jsnum \<Rightarrow> json_number" where
  "JSON_number n = (case n of NaN \<Rightarrow> Null | Num q \<Rightarrow> Number q)"

text \<open>
  An element of an order's \<open>items\<close>: a cart line, the buy-now item, or the empty object
  \<open>{}\<close> that \<open>processOrder\<close> parses when no buy-now item is stored. Reading \<open>price\<close> or
  \<open>quantity\<close> of \<open>{}\<close> gives \<open>undefined\<close>, which arithmetic turns into \<open>NaN\<close>.
\<close>

datatype order_item = CartLine cart_item | BuyNowLine buyNowItem | EmptyObject

fun price :: "order_item \<Rightarrow> jsnum" where
  "price (CartLine i) = Num (item_price i)"
| "price (BuyNowLine b) = Num (bn_price b)"
| "price EmptyObject = NaN"

fun quantity_of :: "order_item \<Rightarrow> jsnum" where
  "quantity_of (CartLine i) = Num (of_int (quantity i))"
| "quantity_of (BuyNowLine b) = Num (of_int (bn_quantity b))"
| "quantity_of EmptyObject = NaN"

record shipping_info =
  ship_firstName :: "string option"
  ship_lastName :: "string option"
  ship_address :: "string option"
  ship_city :: "string option"
  ship_state :: "string option"
  ship_zip :: "string option"
  ship_country :: "string option"
  ship_phone :: "string option"

record payment_info =
  cardNumber :: "string option"
  cardName :: "string option"
  expiry :: "string option"
  cvv :: "string option"

record orderData =
  data_email :: "string option"
  data_shipping :: shipping_info
  data_payment :: payment_info

text \<open>
  An order, with amounts of type \<open>'n\<close>: \<open>jsnum order\<close> is the order as \<open>processOrder\<close>
  builds it, \<open>json_number order\<close> the order as the order log holds it, and
  \<open>order_toJSON\<close> what \<open>JSON.stringify\<close> makes of the first.
\<close>

record 'n order =
  order_id :: string
  order_date :: string
  order_customer :: orderData
  order_items :: "order_item list"
  order_mode :: string
  order_status :: string
  order_subtotal :: 'n
  order_shipping :: 'n
  order_tax :: 'n
  order_total :: 'n

definition order_toJSON :: "jsnum order \<Rightarrow> json_number order" where
  "order_toJSON ord =
     \<lparr>order_id = order_id ord, order_date = order_date ord,
      order_customer = order_customer ord, order_items = order_items ord,
      order_mode = order_mode ord, order_status = order_status ord,
      order_subtotal = JSON_number (order_subtotal ord),
      order_shipping = JSON_number (order_shipping ord),
      order_tax = JSON_number (order_tax ord),
      order_total = JSON_number (order_total ord)\<rparr>"

record user =
  user_id :: string
  user_name :: string
  user_email :: string
  user_password :: string
  createdAt :: string

record session =
  session_email :: string
  session_name :: string
  loginTime :: string

text \<open>
  The two storage areas, one field per key the program uses:
  \<open>localStorage\<close> holds \<open>fashion-store-cart\<close>, \<open>fashion-store-users\<close> and
  \<open>fashion-store-orders\<close>; \<open>sessionStorage\<close> holds \<open>fashion-store-session\<close> and
  \<open>buy-now-item\<close>. \<open>None\<close> is an absent key.
\<close>

record storage =
  fashion_store_cart :: "cart_item list stored option"
  fashion_store_users :: "user list stored option"
  fashion_store_orders :: "json_number order list stored option"
  fashion_store_session :: "session stored option"
  buy_now_item :: "buyNowItem stored option"

text \<open>The clock: \<open>Date.now()\<close> in milliseconds and \<open>new Date().toISOString()\<close>.\<close>

record clock =
  Date_now :: nat
  toISOString :: string

section \<open>Cart manager\<close>

definition getCart :: "storage \<Rightarrow> js_error + cart_item list" where
  "getCart st =
     (case fashion_store_cart st of
        None \<Rightarrow> Inr []
      | Some cart \<Rightarrow> if truthy_text cart then JSON_parse cart else Inr [])"

definition saveCart :: "cart_item list \<Rightarrow> storage \<Rightarrow> storage" where
  "saveCart cart st = st\<lparr>fashion_store_cart := Some (JSON_stringify cart)\<rparr>"

text \<open>\<open>Array.prototype.findIndex\<close>: the index of the first match, or \<open>-1\<close>.\<close>

fun findIndex :: "('a \<Rightarrow> bool) \<Rightarrow> 'a list \<Rightarrow> int" where
  "findIndex P [] = - 1"
| "findIndex P (x # xs) =
     (if P x then 0 else (let i = findIndex P xs in if i = - 1 then - 1 else i + 1))"

definition addToCart ::
  "clock \<Rightarrow> product option \<Rightarrow> int \<Rightarrow> string option \<Rightarrow> string option \<Rightarrow> storage
     \<Rightarrow> js_error + (bool \<times> storage)" where
  "addToCart now product qty sz col st =
     (case product of
        None \<Rightarrow> Inr (False, st)
      | Some p \<Rightarrow>
          if product_id p = 0 then Inr (False, st)
          else
            (case getCart st of
               Inl e \<Rightarrow> Inl e
             | Inr cart \<Rightarrow>
                 let existingItemIndex =
                       findIndex (\<lambda>item. item_id item = product_id p \<and> item_size item = sz \<and> item_color item = col) cart;
                     cart' =
                       (if existingItemIndex > - 1
                        then cart[nat existingItemIndex :=
                               (cart ! nat existingItemIndex)
                                 \<lparr>quantity := quantity (cart ! nat existingItemIndex) + qty\<rparr>]
                        else cart @
                               [\<lparr>item_id = product_id p, item_name = product_name p,
                                 item_price = product_price p, item_image = product_image p,
                                 quantity = qty, item_size = sz, item_color = col,
                                 addedAt = toISOString now\<rparr>])
                 in Inr (True, saveCart cart' st)))"

text \<open>The cart item id of the cart page: \<open>`${item.id}-${item.size || "default"}-${item.color || "default"}`\<close>.\<close>

definition cartItemId :: "cart_item \<Rightarrow> string" where
  "cartItemId item =
     Number_toString (item_id item) @ ''-'' @ or_default (item_size item) ''default'' @ ''-'' @
     or_default (item_color item) ''default''"

definition removeFromCart :: "string \<Rightarrow> storage \<Rightarrow> js_error + storage" where
  "removeFromCart itemId st =
     (case getCart st of
        Inl e \<Rightarrow> Inl e
      | Inr cart \<Rightarrow> Inr (saveCart (filter (\<lambda>item. cartItemId item \<noteq> itemId) cart) st))"

text \<open>
  \<open>find\<close> returns the first matching line, whose \<open>quantity\<close> is then assigned in place;
  \<open>set_first\<close> is that assignment on the list.
\<close>

fun set_first :: "('a \<Rightarrow> bool) \<Rightarrow> ('a \<Rightarrow> 'a) \<Rightarrow> 'a list \<Rightarrow> 'a list" where
  "set_first P f [] = []"
| "set_first P f (x # xs) = (if P x then f x # xs else x # set_first P f xs)"

definition updateCartItemQuantity :: "string \<Rightarrow> int \<Rightarrow> storage \<Rightarrow> js_error + storage" where
  "updateCartItemQuantity itemId newQuantity st =
     (if newQuantity < 1 then removeFromCart itemId st
      else
        (case getCart st of
           Inl e \<Rightarrow> Inl e
         | Inr cart \<Rightarrow>
             (case find (\<lambda>item. cartItemId item = itemId) cart of
                None \<Rightarrow> Inr st
              | Some item \<Rightarrow>
                  Inr (saveCart
                         (set_first (\<lambda>item. cartItemId item = itemId)
                            (\<lambda>item. item\<lparr>quantity := newQuantity\<rparr>) cart)
                         st))))"

definition clearCart :: "storage \<Rightarrow> storage" where
  "clearCart st = st\<lparr>fashion_store_cart := None\<rparr>"

definition getCartTotal :: "storage \<Rightarrow> js_error + rat" where
  "getCartTotal st =
     (case getCart st of
        Inl e \<Rightarrow> Inl e
      | Inr cart \<Rightarrow>
          Inr (foldl
                 (\<lambda>total item.
                    round_to_double (total + round_to_double (item_price item * of_int (quantity item))))
                 0 cart))"

definition getCartItemCount :: "storage \<Rightarrow> js_error + int" where
  "getCartItemCount st =
     (case getCart st of
        Inl e \<Rightarrow> Inl e
      | Inr cart \<Rightarrow> Inr (foldl (\<lambda>count item. count + quantity item) 0 cart))"

text \<open>
  The cart page (\<open>renderCart\<close>, with its container present): the empty state, or the cart
  content with the subtotal, the shipping and the total it displays.
\<close>

datatype cart_view = EmptyState | CartContent rat rat rat

definition renderCart :: "storage \<Rightarrow> js_error + cart_view" where
  "renderCart st =
     (case getCart st of
        Inl e \<Rightarrow> Inl e
      | Inr cart \<Rightarrow>
          if length cart = 0 then Inr EmptyState
          else
            (case getCartTotal st of
               Inl e \<Rightarrow> Inl e
             | Inr subtotal \<Rightarrow>
                 let shipping = (if subtotal > 0 then round_to_double (999 / 100) else 0);
                     total = round_to_double (subtotal + shipping)
                 in Inr (CartContent subtotal shipping total)))"

text \<open>The identity that \<open>addToCart\<close> compares with \<open>===\<close>: product id, size and color.\<close>

definition identity_key :: "cart_item \<Rightarrow> int \<times> string option \<times> string option" where
  "identity_key item = (item_id item, item_size item, item_color item)"

definition lines_with :: "int \<times> string option \<times> string option \<Rightarrow> cart_item list \<Rightarrow> cart_item list" where
  "lines_with k cart = filter (\<lambda>item. identity_key item = k) cart"

section \<open>Authentication manager\<close>

text \<open>Strings are ASCII: \<open>toLowerCase\<close>, \<open>toUpperCase\<close> and \<open>trim\<close> on the ASCII range.\<close>

definition toLowerCase :: "string \<Rightarrow> string" where
  "toLowerCase s =
     map (\<lambda>c. case map_of (zip ''ABCDEFGHIJKLMNOPQRSTUVWXYZ'' ''abcdefghijklmnopqrstuvwxyz'') c of
                None \<Rightarrow> c | Some d \<Rightarrow> d) s"

definition toUpperCase :: "string \<Rightarrow> string" where
  "toUpperCase s =
     map (\<lambda>c. case map_of (zip ''abcdefghijklmnopqrstuvwxyz'' ''ABCDEFGHIJKLMNOPQRSTUVWXYZ'') c of
                None \<Rightarrow> c | Some d \<Rightarrow> d) s"

definition isWhiteSpace :: "char \<Rightarrow> bool" where
  "isWhiteSpace c = (c \<in> set [CHR '' '', CHR 0x09, CHR 0x0A, CHR 0x0B, CHR 0x0C, CHR 0x0D])"

definition trim :: "string \<Rightarrow> string" where
  "trim s = rev (dropWhile isWhiteSpace (rev (dropWhile isWhiteSpace s)))"

text \<open>
  The password pattern \<open>/^(?=.*[a-z])(?=.*[A-Z])(?=.*\d)(?=.*[\W_]).{8,}$/\<close>. The body
  \<open>.{8,}$\<close> asks for at least eight characters up to the end, none a line terminator; on
  such a string each lookahead asks for one character of its class anywhere. \<open>[\W_]\<close> is
  every character that is neither a letter nor a digit.
\<close>

definition isLower :: "char \<Rightarrow> bool" where
  "isLower c = (c \<in> set ''abcdefghijklmnopqrstuvwxyz'')"

definition isUpper :: "char \<Rightarrow> bool" where
  "isUpper c = (c \<in> set ''ABCDEFGHIJKLMNOPQRSTUVWXYZ'')"

definition isDigit :: "char \<Rightarrow> bool" where
  "isDigit c = (c \<in> set ''0123456789'')"

definition isLineTerminator :: "char \<Rightarrow> bool" where
  "isLineTerminator c = (c \<in> set [CHR 0x0A, CHR 0x0D])"

definition passwordRegex_test :: "string \<Rightarrow> bool" where
  "passwordRegex_test password =
     (list_ex isLower password \<and> list_ex isUpper password \<and> list_ex isDigit password \<and>
      list_ex (\<lambda>c. \<not> isLower c \<and> \<not> isUpper c \<and> \<not> isDigit c) password \<and>
      8 \<le> length password \<and> \<not> list_ex isLineTerminator password)"

definition getUsers :: "storage \<Rightarrow> js_error + user list" where
  "getUsers st =
     (case fashion_store_users st of
        None \<Rightarrow> Inr []
      | Some users \<Rightarrow> if truthy_text users then JSON_parse users else Inr [])"

definition saveUsers :: "user list \<Rightarrow> storage \<Rightarrow> storage" where
  "saveUsers users st = st\<lparr>fashion_store_users := Some (JSON_stringify users)\<rparr>"

definition getSession :: "storage \<Rightarrow> js_error + session option" where
  "getSession st =
     (case fashion_store_session st of
        None \<Rightarrow> Inr None
      | Some s \<Rightarrow> if truthy_text s then map_sum id Some (JSON_parse s) else Inr None)"

definition saveSession :: "session \<Rightarrow> storage \<Rightarrow> storage" where
  "saveSession s st = st\<lparr>fashion_store_session := Some (JSON_stringify s)\<rparr>"

definition clearSession :: "storage \<Rightarrow> storage" where
  "clearSession st = st\<lparr>fashion_store_session := None\<rparr>"

definition isLoggedIn :: "storage \<Rightarrow> js_error + bool" where
  "isLoggedIn st = map_sum id (\<lambda>s. s \<noteq> None) (getSession st)"

text \<open>
  The values of the form's inputs; \<open>None\<close> is an input element missing from the page
  (\<open>nameInput?.value\<close> is then \<open>undefined\<close>).
\<close>

record register_form =
  reg_name :: "string option"
  reg_email :: "string option"
  reg_password :: "string option"
  reg_confirm_password :: "string option"

record login_form =
  login_email :: "string option"
  login_password :: "string option"

text \<open>
  What a handler ends with: the message it passes to \<open>showAuthError\<close>, or the page it
  assigns to \<open>window.location.href\<close>. Past a handler's check for blank fields every
  field is a non-empty string: \<open>the\<close> is applied there, to \<open>Some\<close> only.
\<close>

datatype outcome = ShowAuthError string | Redirect string

definition handleRegister ::
  "clock \<Rightarrow> string option \<Rightarrow> register_form \<Rightarrow> storage \<Rightarrow> js_error + (outcome \<times> storage)" where
  "handleRegister now redirectParam form st =
     (let name = map_option trim (reg_name form);
          email = map_option (\<lambda>v. toLowerCase (trim v)) (reg_email form);
          password = reg_password form;
          confirmPassword = reg_confirm_password form
      in if \<not> truthy name \<or> \<not> truthy email \<or> \<not> truthy password \<or> \<not> truthy confirmPassword
         then Inr (ShowAuthError ''Please fill in all fields'', st)
         else if password \<noteq> confirmPassword
         then Inr (ShowAuthError ''Passwords do not match'', st)
         else if \<not> passwordRegex_test (the password)
         then Inr (ShowAuthError
                 ''Password must be at least 8 characters long and include an uppercase letter, a lowercase letter, a number, and a special character.'',
                 st)
         else
           (case getUsers st of
              Inl e \<Rightarrow> Inl e
            | Inr users \<Rightarrow>
                if list_ex (\<lambda>user. user_email user = the email) users
                then Inr (ShowAuthError ''Email already registered'', st)
                else
                  let newUser =
                        \<lparr>user_id = digits_radix 10 (Date_now now), user_name = the name,
                          user_email = the email, user_password = the password,
                          createdAt = toISOString now\<rparr>;
                      st1 = saveUsers (users @ [newUser]) st;
                      st2 = saveSession
                              \<lparr>session_email = user_email newUser, session_name = user_name newUser,
                                loginTime = toISOString now\<rparr> st1
                  in Inr (Redirect (or_default redirectParam ''../index.html''), st2)))"

definition handleLogin ::
  "clock \<Rightarrow> string option \<Rightarrow> login_form \<Rightarrow> storage \<Rightarrow> js_error + (outcome \<times> storage)" where
  "handleLogin now redirectParam form st =
     (let email = map_option (\<lambda>v. toLowerCase (trim v)) (login_email form);
          password = login_password form
      in if \<not> truthy email \<or> \<not> truthy password
         then Inr (ShowAuthError ''Please enter email and password'', st)
         else
           (case getUsers st of
              Inl e \<Rightarrow> Inl e
            | Inr users \<Rightarrow>
                (case find (\<lambda>u. user_email u = the email) users of
                   None \<Rightarrow> Inr (ShowAuthError ''Invalid email or password'', st)
                 | Some user \<Rightarrow>
                     if user_password user \<noteq> the password
                     then Inr (ShowAuthError ''Invalid email or password'', st)
                     else
                       Inr (Redirect (or_default redirectParam ''../index.html''),
                            saveSession
                              \<lparr>session_email = user_email user, session_name = user_name user,
                                loginTime = toISOString now\<rparr> st))))"

definition handleLogout :: "storage \<Rightarrow> outcome \<times> storage" where
  "handleLogout st = (Redirect ''../index.html'', clearSession st)"

section \<open>Checkout manager\<close>

text \<open>
  What a checkout page shows: the page it redirects to, or the summary with subtotal,
  shipping, tax and total.
\<close>

datatype checkout_view = RedirectTo string | Summary rat rat rat rat

definition renderBuyNowCheckout :: "storage \<Rightarrow> js_error + checkout_view" where
  "renderBuyNowCheckout st =
     (case (case buy_now_item st of
              None \<Rightarrow> Inr None
            | Some t \<Rightarrow> if truthy_text t then map_sum id Some (JSON_parse t) else Inr None) of
        Inl e \<Rightarrow> Inl e
      | Inr None \<Rightarrow> Inr (RedirectTo ''shop.html'')
      | Inr (Some buyNowItem) \<Rightarrow>
          let subtotal = round_to_double (bn_price buyNowItem * of_int (bn_quantity buyNowItem));
              shipping = round_to_double (999 / 100);
              tax = round_to_double (subtotal * round_to_double (8 / 100));
              total = round_to_double (round_to_double (subtotal + shipping) + tax)
          in Inr (Summary subtotal shipping tax total))"

definition renderCartCheckout :: "storage \<Rightarrow> js_error + checkout_view" where
  "renderCartCheckout st =
     (case getCart st of
        Inl e \<Rightarrow> Inl e
      | Inr cart \<Rightarrow>
          if length cart = 0 then Inr (RedirectTo ''cart.html'')
          else
            (case getCartTotal st of
               Inl e \<Rightarrow> Inl e
             | Inr subtotal \<Rightarrow>
                 let shipping = round_to_double (999 / 100);
                     tax = round_to_double (subtotal * round_to_double (8 / 100));
                     total = round_to_double (round_to_double (subtotal + shipping) + tax)
                 in Inr (Summary subtotal shipping tax total)))"

definition generateOrderId :: "clock \<Rightarrow> string" where
  "generateOrderId now = ''ORD-'' @ toUpperCase (digits_radix 36 (Date_now now))"

definition getOrders :: "storage \<Rightarrow> js_error + json_number order list" where
  "getOrders st =
     (case fashion_store_orders st of
        None \<Rightarrow> Inr []
      | Some t \<Rightarrow> if truthy_text t then JSON_parse t else Inr [])"

text \<open>
  \<open>saveOrder\<close> parses the log, pushes the order and writes the array back: the orders
  read from the log are written as they were read, the new one as \<open>JSON.stringify\<close>
  writes it.
\<close>

definition saveOrder :: "jsnum order \<Rightarrow> storage \<Rightarrow> js_error + storage" where
  "saveOrder ord st =
     (case getOrders st of
        Inl e \<Rightarrow> Inl e
      | Inr orders \<Rightarrow>
          Inr (st\<lparr>fashion_store_orders := Some (JSON_stringify (orders @ [order_toJSON ord]))\<rparr>))"

text \<open>The \<open>reduce\<close> of \<open>processOrder\<close> over the order's items.\<close>

definition items_subtotal :: "order_item list \<Rightarrow> jsnum" where
  "items_subtotal its = foldl (\<lambda>sum item. jsnum_add sum (jsnum_mul (price item) (quantity_of item))) (Num 0) its"

text \<open>
  \<open>processOrder\<close>, with the \<open>mode\<close> parameter of the page's URL (\<open>None\<close> when absent). It
  returns the order it hands to \<open>showOrderSuccess\<close> and the storage it leaves.
\<close>

definition processOrder ::
  "clock \<Rightarrow> string option \<Rightarrow> orderData \<Rightarrow> storage \<Rightarrow> js_error + (jsnum order \<times> storage)" where
  "processOrder now modeParam data st =
     (case (if modeParam = Some ''buy-now''
            then (case buy_now_item st of
                    None \<Rightarrow> Inr [EmptyObject]
                  | Some t \<Rightarrow>
                      if truthy_text t then map_sum id (\<lambda>b. [BuyNowLine b]) (JSON_parse t)
                      else Inr [EmptyObject])
            else map_sum id (map CartLine) (getCart st)) of
        Inl e \<Rightarrow> Inl e
      | Inr its \<Rightarrow>
          let subtotal = items_subtotal its;
              ord = \<lparr>order_id = generateOrderId now, order_date = toISOString now,
                     order_customer = data, order_items = its,
                     order_mode = or_default modeParam ''cart'', order_status = ''confirmed'',
                     order_subtotal = subtotal,
                     order_shipping = Num (round_to_double (999 / 100)),
                     order_tax = jsnum_mul subtotal (Num (round_to_double (8 / 100))),
                     order_total =
                       jsnum_add (jsnum_add subtotal (Num (round_to_double (999 / 100))))
                         (jsnum_mul subtotal (Num (round_to_double (8 / 100))))\<rparr>
          in (case saveOrder ord st of
                Inl e \<Rightarrow> Inl e
              | Inr st1 \<Rightarrow>
                  let st2 = (if modeParam \<noteq> Some ''buy-now'' then clearCart st1 else st1)
                  in Inr (ord, st2\<lparr>buy_now_item := None\<rparr>)))"

section \<open>Example data\<close>

text \<open>Concrete storage contents, products and form data, on which the theorems are run.\<close>

definition empty_storage :: storage where
  "empty_storage =
     \<lparr>fashion_store_cart = None, fashion_store_users = None, fashion_store_orders = None,
      fashion_store_session = None, buy_now_item = None\<rparr>"

definition example_clock :: clock where
  "example_clock = \<lparr>Date_now = 1700000000000, toISOString = ''2023-11-14T22:13:20.000Z''\<rparr>"

definition shirt :: product where
  "shirt = \<lparr>product_id = 1, product_name = ''Shirt'', product_price = 20,
            product_image = ''shirt.png''\<rparr>"

definition shirt_line :: "int \<Rightarrow> cart_item" where
  "shirt_line q =
     \<lparr>item_id = 1, item_name = ''Shirt'', item_price = 20, item_image = ''shirt.png'',
      quantity = q, item_size = Some ''M'', item_color = Some ''red'',
      addedAt = ''2023-11-14T22:13:20.000Z''\<rparr>"

definition scarf_line :: "rat \<Rightarrow> int \<Rightarrow> cart_item" where
  "scarf_line p q =
     \<lparr>item_id = 7, item_name = ''Scarf'', item_price = p, item_image = ''scarf.png'',
      quantity = q, item_size = None, item_color = None,
      addedAt = ''2023-11-14T22:13:20.000Z''\<rparr>"

definition cart_storage :: "cart_item list \<Rightarrow> storage" where
  "cart_storage cart = empty_storage\<lparr>fashion_store_cart := Some (Json cart)\<rparr>"

definition example_orderData :: orderData where
  "example_orderData =
     \<lparr>data_email = Some ''a@b.com'',
      data_shipping =
        \<lparr>ship_firstName = Some ''Ada'', ship_lastName = Some ''Lovelace'',
         ship_address = Some ''1 Main St'', ship_city = Some ''London'', ship_state = None,
         ship_zip = Some ''N1'', ship_country = Some ''UK'', ship_phone = Some ''555''\<rparr>,
      data_payment =
        \<lparr>cardNumber = Some ''4111111111111111'', cardName = Some ''Ada Lovelace'',
         expiry = Some ''12/30'', cvv = Some ''123''\<rparr>\<rparr>"

definition example_buyNowItem :: buyNowItem where
  "example_buyNowItem =
     \<lparr>bn_id = 3, bn_name = ''Coat'', bn_price = 50, bn_image = ''coat.png'', bn_quantity = 1,
      bn_size = None, bn_color = None, isBuyNow = True\<rparr>"

definition ada :: user where
  "ada = \<lparr>user_id = ''1690000000000'', user_name = ''Ada'', user_email = ''a@b.com'',
          user_password = ''Passw0rd!'', createdAt = ''2023-07-22T04:26:40.000Z''\<rparr>"

definition users_storage :: "user list \<Rightarrow> storage" where
  "users_storage users = empty_storage\<lparr>fashion_store_users := Some (Json users)\<rparr>"

definition both_storage :: storage where
  "both_storage = (cart_storage [shirt_line 2])\<lparr>buy_now_item := Some (Json example_buyNowItem)\<rparr>"

text \<open>Checkouts in cart mode: of an empty cart, and of a cart whose one line is free.\<close>

definition empty_cart_checkout :: "js_error + jsnum order \<times> storage" where
  "empty_cart_checkout = processOrder example_clock None example_orderData empty_storage"

definition free_scarf_checkout :: "js_error + jsnum order \<times> storage" where
  "free_scarf_checkout =
     processOrder example_clock None example_orderData (cart_storage [scarf_line 0 1])"



section \<open>Properties of the cart\<close>

lemma getCart_saveCart: "getCart (saveCart cart st) = Inr cart"
  by (simp add: getCart_def saveCart_def truthy_text_def JSON_stringify_def JSON_parse_def)

lemma findIndex_ge: "- 1 \<le> findIndex P xs"
  by (induction xs) (auto simp: Let_def)

lemma findIndex_none: "findIndex P xs = - 1 \<longleftrightarrow> \<not> list_ex P xs"
proof (induction xs)
  case Nil
  show ?case by simp
next
  case (Cons x xs)
  have "- 1 \<le> findIndex P xs" by (rule findIndex_ge)
  with Cons show ?case by (auto simp: Let_def)
qed

lemma findIndex_first:
  "- 1 < findIndex P xs \<Longrightarrow>
     nat (findIndex P xs) < length xs \<and> P (xs ! nat (findIndex P xs)) \<and>
     (\<forall>j < nat (findIndex P xs). \<not> P (xs ! j))"
proof (induction xs)
  case Nil
  then show ?case by simp
next
  case (Cons x xs)
  show ?case
  proof (cases "P x")
    case True
    then show ?thesis by simp
  next
    case False
    with Cons.prems have pos: "- 1 < findIndex P xs"
      by (simp add: Let_def split: if_splits)
    then have ne: "findIndex P xs \<noteq> - 1" by simp
    from pos have n: "nat (findIndex P xs + 1) = Suc (nat (findIndex P xs))" by simp
    from Cons.IH [OF pos] False ne n show ?thesis
      by (auto simp: Let_def nth_Cons split: nat.splits)
  qed
qed

lemma filter_key_distinct:
  "distinct (map f xs) \<Longrightarrow> i < length xs \<Longrightarrow> filter (\<lambda>x. f x = f (xs ! i)) xs = [xs ! i]"
proof (induction xs arbitrary: i)
  case Nil
  then show ?case by simp
next
  case (Cons x xs)
  show ?case
  proof (cases i)
    case 0
    from Cons.prems have "f x \<notin> f ` set xs" by simp
    then have "\<forall>y \<in> set xs. f y \<noteq> f x" by (metis imageI)
    then have "filter (\<lambda>y. f y = f x) xs = []" by (simp add: filter_empty_conv)
    with 0 show ?thesis by simp
  next
    case (Suc j)
    with Cons.prems have j: "j < length xs" and d: "distinct (map f xs)" by auto
    from Cons.prems have "f x \<notin> f ` set xs" by simp
    with j have "f x \<noteq> f (xs ! j)" by (metis imageI nth_mem)
    with Cons.IH [OF d j] Suc show ?thesis by simp
  qed
qed

lemma map_key_update:
  "i < length xs \<Longrightarrow> f y = f (xs ! i) \<Longrightarrow> map f (xs[i := y]) = map f xs"
  by (simp add: map_update list_update_same_conv)

lemma filter_other_update:
  "i < length xs \<Longrightarrow> f y = f (xs ! i) \<Longrightarrow> k \<noteq> f (xs ! i) \<Longrightarrow>
     filter (\<lambda>x. f x = k) (xs[i := y]) = filter (\<lambda>x. f x = k) xs"
proof (induction xs arbitrary: i)
  case Nil
  then show ?case by simp
next
  case (Cons x xs)
  then show ?case by (cases i) auto
qed

lemma addToCart_new_line:
  assumes "getCart st = Inr cart" and "product_id p \<noteq> 0"
    and "\<not> list_ex (\<lambda>item. identity_key item = (product_id p, sz, col)) cart"
  shows "addToCart now (Some p) qty sz col st =
           Inr (True, saveCart (cart @
                  [\<lparr>item_id = product_id p, item_name = product_name p,
                    item_price = product_price p, item_image = product_image p,
                    quantity = qty, item_size = sz, item_color = col,
                    addedAt = toISOString now\<rparr>]) st)"
proof -
  let ?P = "\<lambda>item. item_id item = product_id p \<and> item_size item = sz \<and> item_color item = col"
  from assms(3) have "\<not> list_ex ?P cart" by (simp add: identity_key_def)
  then have "findIndex ?P cart = - 1" by (simp add: findIndex_none)
  with assms(1,2) show ?thesis by (simp add: addToCart_def Let_def)
qed

lemma addToCart_existing_line:
  assumes "getCart st = Inr cart" and "product_id p \<noteq> 0"
    and "list_ex (\<lambda>item. identity_key item = (product_id p, sz, col)) cart"
  shows "\<exists>i < length cart. identity_key (cart ! i) = (product_id p, sz, col) \<and>
           (\<forall>j < i. identity_key (cart ! j) \<noteq> (product_id p, sz, col)) \<and>
           addToCart now (Some p) qty sz col st =
             Inr (True, saveCart (cart[i := (cart ! i)\<lparr>quantity := quantity (cart ! i) + qty\<rparr>]) st)"
proof -
  let ?P = "\<lambda>item. item_id item = product_id p \<and> item_size item = sz \<and> item_color item = col"
  let ?i = "findIndex ?P cart"
  from assms(3) have "list_ex ?P cart" by (simp add: identity_key_def)
  then have "?i \<noteq> - 1" by (simp add: findIndex_none)
  moreover have "- 1 \<le> ?i" by (rule findIndex_ge)
  ultimately have pos: "- 1 < ?i" by simp
  from findIndex_first [OF pos]
  have "nat ?i < length cart" and "?P (cart ! nat ?i)" and "\<forall>j < nat ?i. \<not> ?P (cart ! j)"
    by blast+
  moreover from assms(1,2) pos
  have "addToCart now (Some p) qty sz col st =
          Inr (True, saveCart (cart[nat ?i := (cart ! nat ?i)\<lparr>quantity := quantity (cart ! nat ?i) + qty\<rparr>]) st)"
    by (simp add: addToCart_def Let_def)
  ultimately show ?thesis
    by (intro exI [of _ "nat ?i"]) (simp add: identity_key_def)
qed


lemma addToCart_merges:
  assumes cart: "getCart st = Inr cart" and d: "distinct (map identity_key cart)"
    and p: "product_id p \<noteq> 0"
  shows "\<exists>cart' l.
           addToCart now (Some p) qty sz col st = Inr (True, saveCart cart' st) \<and>
           distinct (map identity_key cart') \<and>
           lines_with (product_id p, sz, col) cart' = [l] \<and>
           quantity l = sum_list (map quantity (lines_with (product_id p, sz, col) cart)) + qty \<and>
           (\<forall>k. k \<noteq> (product_id p, sz, col) \<longrightarrow> lines_with k cart' = lines_with k cart)"
proof (cases "list_ex (\<lambda>item. identity_key item = (product_id p, sz, col)) cart")
  case False
  let ?k = "(product_id p, sz, col)"
  let ?new = "\<lparr>item_id = product_id p, item_name = product_name p,
                item_price = product_price p, item_image = product_image p,
                quantity = qty, item_size = sz, item_color = col,
                addedAt = toISOString now\<rparr>"
  have key: "identity_key ?new = ?k" by (simp add: identity_key_def)
  from False have none: "\<forall>item \<in> set cart. identity_key item \<noteq> ?k"
    by (simp add: list_ex_iff)
  then have empty: "lines_with ?k cart = []"
    by (simp add: lines_with_def filter_empty_conv)
  from none have "?k \<notin> set (map identity_key cart)" by auto
  with d key have "distinct (map identity_key (cart @ [?new]))" by simp
  moreover from empty key have "lines_with ?k (cart @ [?new]) = [?new]"
    by (simp add: lines_with_def)
  moreover from empty have "quantity ?new = sum_list (map quantity (lines_with ?k cart)) + qty"
    by simp
  moreover from key have "\<forall>k. k \<noteq> ?k \<longrightarrow> lines_with k (cart @ [?new]) = lines_with k cart"
    by (auto simp: lines_with_def)
  ultimately show ?thesis
    using addToCart_new_line [OF cart p False, of now qty] by blast
next
  case True
  let ?k = "(product_id p, sz, col)"
  from addToCart_existing_line [OF cart p True, of now qty]
  obtain i where i: "i < length cart" and ki: "identity_key (cart ! i) = ?k"
    and add: "addToCart now (Some p) qty sz col st =
                Inr (True, saveCart (cart[i := (cart ! i)\<lparr>quantity := quantity (cart ! i) + qty\<rparr>]) st)"
    by blast
  let ?l = "(cart ! i)\<lparr>quantity := quantity (cart ! i) + qty\<rparr>"
  have kl: "identity_key ?l = identity_key (cart ! i)" by (simp add: identity_key_def)
  from i kl have same: "map identity_key (cart[i := ?l]) = map identity_key cart"
    by (rule map_key_update)
  with d have d': "distinct (map identity_key (cart[i := ?l]))" by simp
  from i have len: "i < length (cart[i := ?l])" by simp
  from filter_key_distinct [OF d' len] i kl ki
  have one: "lines_with ?k (cart[i := ?l]) = [?l]" by (simp add: lines_with_def)
  from filter_key_distinct [OF d i] ki
  have "lines_with ?k cart = [cart ! i]" by (simp add: lines_with_def)
  then have q: "quantity ?l = sum_list (map quantity (lines_with ?k cart)) + qty" by simp
  have "\<forall>k. k \<noteq> ?k \<longrightarrow> lines_with k (cart[i := ?l]) = lines_with k cart"
    using filter_other_update [OF i kl] ki by (simp add: lines_with_def)
  with add d' one q show ?thesis by blast
qed

text \<open>
  Claim C1. The cart holds at most one line per identity (product id, size, color), and
  \<open>addToCart\<close> keeps it so: on a readable stored cart with at most one line per identity,
  two calls of \<open>addToCart\<close> with the same product, size and color and the quantities \<open>q1\<close>
  and \<open>q2\<close> both return \<open>true\<close> and leave a stored cart that again has at most one line per
  identity, with exactly one line of that identity. Its quantity is what the cart held for
  the identity before, plus \<open>q1 + q2\<close>: it is \<open>q1 + q2\<close> when the cart held no such line.
\<close>

theorem addToCart_twice_one_line:
  assumes cart: "getCart st = Inr cart" and d: "distinct (map identity_key cart)"
    and p: "product_id p \<noteq> 0"
  shows "\<exists>st1 st2 cart2 l.
           addToCart now1 (Some p) q1 sz col st = Inr (True, st1) \<and>
           addToCart now2 (Some p) q2 sz col st1 = Inr (True, st2) \<and>
           getCart st2 = Inr cart2 \<and> distinct (map identity_key cart2) \<and>
           lines_with (product_id p, sz, col) cart2 = [l] \<and>
           quantity l = sum_list (map quantity (lines_with (product_id p, sz, col) cart)) + q1 + q2 \<and>
           (lines_with (product_id p, sz, col) cart = [] \<longrightarrow> quantity l = q1 + q2)"
proof -
  let ?k = "(product_id p, sz, col)"
  from addToCart_merges [OF cart d p, of now1 q1 sz col]
  obtain cart1 l1 where a1: "addToCart now1 (Some p) q1 sz col st = Inr (True, saveCart cart1 st)"
    and d1: "distinct (map identity_key cart1)"
    and l1: "lines_with ?k cart1 = [l1]"
    and q1: "quantity l1 = sum_list (map quantity (lines_with ?k cart)) + q1"
    by blast
  have g1: "getCart (saveCart cart1 st) = Inr cart1" by (rule getCart_saveCart)
  from addToCart_merges [OF g1 d1 p, of now2 q2 sz col]
  obtain cart2 l2 where a2: "addToCart now2 (Some p) q2 sz col (saveCart cart1 st) =
                               Inr (True, saveCart cart2 (saveCart cart1 st))"
    and d2: "distinct (map identity_key cart2)"
    and l2: "lines_with ?k cart2 = [l2]"
    and q2: "quantity l2 = sum_list (map quantity (lines_with ?k cart1)) + q2"
    by blast
  have g2: "getCart (saveCart cart2 (saveCart cart1 st)) = Inr cart2" by (rule getCart_saveCart)
  from q1 q2 l1 have q: "quantity l2 = sum_list (map quantity (lines_with ?k cart)) + q1 + q2"
    by simp
  then have "lines_with ?k cart = [] \<longrightarrow> quantity l2 = q1 + q2" by simp
  with a1 a2 g2 d2 l2 q show ?thesis by blast
qed

theorem addToCart_twice_one_line_witness:
  "getCart empty_storage = Inr [] \<and> distinct (map identity_key []) \<and> product_id shirt \<noteq> 0 \<and>
   (\<exists>st1 st2 cart2 l.
      addToCart example_clock (Some shirt) 2 (Some ''M'') None empty_storage = Inr (True, st1) \<and>
      addToCart example_clock (Some shirt) 3 (Some ''M'') None st1 = Inr (True, st2) \<and>
      getCart st2 = Inr cart2 \<and> distinct (map identity_key cart2) \<and>
      lines_with (1, Some ''M'', None) cart2 = [l] \<and> quantity l = 5)"
  using addToCart_twice_one_line [of empty_storage "[]" shirt example_clock 2 "Some ''M''" None example_clock 3]
  by (simp add: getCart_def empty_storage_def shirt_def lines_with_def)

text \<open>
  The other cart operations keep "at most one line per identity" as well, and the empty
  storage has it: every cart the program builds from there has it.
\<close>

lemma map_key_set_first:
  "(\<And>x. k (f x) = k x) \<Longrightarrow> map k (set_first P f xs) = map k xs"
  by (induction xs) simp_all

lemma removeFromCart_keeps_identities_distinct:
  assumes "getCart st = Inr cart" and "distinct (map identity_key cart)"
  shows "\<exists>st' cart'. removeFromCart itemId st = Inr st' \<and> getCart st' = Inr cart' \<and>
           distinct (map identity_key cart')"
  using assms by (simp add: removeFromCart_def getCart_saveCart distinct_map_filter)

lemma updateCartItemQuantity_keeps_identities_distinct:
  assumes "getCart st = Inr cart" and "distinct (map identity_key cart)"
  shows "\<exists>st' cart'. updateCartItemQuantity itemId newQuantity st = Inr st' \<and>
           getCart st' = Inr cart' \<and> distinct (map identity_key cart')"
proof (cases "newQuantity < 1")
  case True
  with removeFromCart_keeps_identities_distinct [OF assms, of itemId] show ?thesis
    by (simp add: updateCartItemQuantity_def)
next
  case False
  have "map identity_key
          (set_first (\<lambda>item. cartItemId item = itemId) (\<lambda>item. item\<lparr>quantity := newQuantity\<rparr>) cart) =
        map identity_key cart"
    by (rule map_key_set_first) (simp add: identity_key_def)
  with False assms show ?thesis
    by (simp add: updateCartItemQuantity_def getCart_saveCart split: option.splits)
qed

lemma clearCart_identities_distinct: "getCart (clearCart st) = Inr []"
  by (simp add: getCart_def clearCart_def)

text \<open>
  Claim C9. For every quantity below 1, zero and the negative ones included,
  \<open>updateCartItemQuantity\<close> does exactly what \<open>removeFromCart\<close> does with the same cart item
  id: the same result and the same storage. On a readable cart that is the stored cart
  without the lines of that cart item id, the other lines and every other key as they were.
\<close>

theorem updateCartItemQuantity_below_one_removes:
  assumes "newQuantity < 1"
  shows "updateCartItemQuantity itemId newQuantity st = removeFromCart itemId st \<and>
         updateCartItemQuantity itemId newQuantity st =
           (case getCart st of
              Inl e \<Rightarrow> Inl e
            | Inr cart \<Rightarrow>
                Inr (st\<lparr>fashion_store_cart :=
                          Some (Json (filter (\<lambda>item. cartItemId item \<noteq> itemId) cart))\<rparr>))"
  using assms
  by (simp add: updateCartItemQuantity_def removeFromCart_def saveCart_def JSON_stringify_def
      split: sum.splits)

theorem updateCartItemQuantity_below_one_removes_witness:
  "(0::int) < 1 \<and> (- 5::int) < 1 \<and>
   updateCartItemQuantity ''1-M-red'' 0 (cart_storage [shirt_line 2, scarf_line 15 1]) =
     removeFromCart ''1-M-red'' (cart_storage [shirt_line 2, scarf_line 15 1]) \<and>
   updateCartItemQuantity ''1-M-red'' 0 (cart_storage [shirt_line 2, scarf_line 15 1]) =
     Inr (cart_storage [scarf_line 15 1]) \<and>
   updateCartItemQuantity ''1-M-red'' (- 5) (cart_storage [shirt_line 2, scarf_line 15 1]) =
     Inr (cart_storage [scarf_line 15 1])"
  using updateCartItemQuantity_below_one_removes
          [of 0 "''1-M-red''" "cart_storage [shirt_line 2, scarf_line 15 1]"]
        updateCartItemQuantity_below_one_removes
          [of "- 5" "''1-M-red''" "cart_storage [shirt_line 2, scarf_line 15 1]"]
  by (simp add: getCart_def cart_storage_def empty_storage_def truthy_text_def JSON_parse_def
      cartItemId_def Number_toString_def digits_radix.simps or_default_def shirt_line_def
      scarf_line_def removeFromCart_def saveCart_def JSON_stringify_def)

text \<open>
  Claim C10. \<open>addToCart\<close> checks no minimum quantity: for every product with a truthy id
  and every integer quantity, zero and the negative ones included, it returns \<open>true\<close> on a
  readable cart and stores the cart with that quantity in a new last line, or added to the
  quantity of the first line of the same product, size and color.
\<close>

theorem addToCart_any_quantity:
  assumes "product_id p \<noteq> 0" and "getCart st = Inr cart"
  shows "\<exists>cart'.
           addToCart now (Some p) qty sz col st = Inr (True, saveCart cart' st) \<and>
           getCart (saveCart cart' st) = Inr cart' \<and>
           (if list_ex (\<lambda>item. identity_key item = (product_id p, sz, col)) cart
            then \<exists>i < length cart.
                   identity_key (cart ! i) = (product_id p, sz, col) \<and>
                   (\<forall>j < i. identity_key (cart ! j) \<noteq> (product_id p, sz, col)) \<and>
                   cart' = cart[i := (cart ! i)\<lparr>quantity := quantity (cart ! i) + qty\<rparr>]
            else cart' = cart @
                   [\<lparr>item_id = product_id p, item_name = product_name p,
                     item_price = product_price p, item_image = product_image p,
                     quantity = qty, item_size = sz, item_color = col,
                     addedAt = toISOString now\<rparr>])"
proof (cases "list_ex (\<lambda>item. identity_key item = (product_id p, sz, col)) cart")
  case True
  from addToCart_existing_line [OF assms(2) assms(1) True, of now qty]
  show ?thesis using True by (auto simp: getCart_saveCart)
next
  case False
  from addToCart_new_line [OF assms(2) assms(1) False, of now qty]
  show ?thesis using False by (simp add: getCart_saveCart)
qed

theorem addToCart_any_quantity_witness:
  "product_id shirt \<noteq> 0 \<and> getCart empty_storage = Inr [] \<and>
   addToCart example_clock (Some shirt) 0 (Some ''M'') (Some ''red'') empty_storage =
     Inr (True, cart_storage [shirt_line 0]) \<and>
   getCart (cart_storage [shirt_line 0]) = Inr [shirt_line 0] \<and>
   addToCart example_clock (Some shirt) (- 3) (Some ''M'') (Some ''red'') (cart_storage [shirt_line 0]) =
     Inr (True, cart_storage [shirt_line (- 3)])"
  using addToCart_any_quantity [of shirt empty_storage "[]" example_clock 0 "Some ''M''" "Some ''red''"]
        addToCart_any_quantity [of shirt "cart_storage [shirt_line 0]" "[shirt_line 0]" example_clock "- 3" "Some ''M''" "Some ''red''"]
  by (simp add: getCart_def cart_storage_def empty_storage_def truthy_text_def JSON_parse_def
      shirt_def shirt_line_def example_clock_def saveCart_def JSON_stringify_def identity_key_def)

section \<open>Properties of the doubles\<close>

text \<open>
  \<open>round_to_double\<close> on known cases: the double of \<open>0.1\<close>, ties going to the even
  significand at \<open>2^53 + 1\<close> and \<open>2^53 + 3\<close>, and a negative number.
\<close>

lemma round_to_double_examples:
  "round_to_double (1 / 10) = 3602879701896397 / 36028797018963968"
  "round_to_double 9007199254740993 = 9007199254740992"
  "round_to_double 9007199254740995 = 9007199254740996"
  "round_to_double (- (1 / 10)) = - (3602879701896397 / 36028797018963968)"
  by code_simp+

section \<open>Properties of the checkout\<close>

lemma round_to_double_0: "round_to_double 0 = 0"
  by (simp add: round_to_double_def)



text \<open>What \<open>processOrder\<close> returns, read off its definition.\<close>

lemma processOrder_Inr:
  assumes "processOrder now modeParam data st = Inr (ord, st')"
  shows "\<exists>its orders.
           (if modeParam = Some ''buy-now''
            then (case buy_now_item st of
                    None \<Rightarrow> Inr [EmptyObject]
                  | Some t \<Rightarrow>
                      if truthy_text t then map_sum id (\<lambda>b. [BuyNowLine b]) (JSON_parse t)
                      else Inr [EmptyObject])
            else map_sum id (map CartLine) (getCart st)) = Inr its \<and>
           getOrders st = Inr orders \<and>
           ord = \<lparr>order_id = generateOrderId now, order_date = toISOString now,
                  order_customer = data, order_items = its,
                  order_mode = or_default modeParam ''cart'', order_status = ''confirmed'',
                  order_subtotal = items_subtotal its,
                  order_shipping = Num (round_to_double (999 / 100)),
                  order_tax = jsnum_mul (items_subtotal its) (Num (round_to_double (8 / 100))),
                  order_total =
                    jsnum_add (jsnum_add (items_subtotal its) (Num (round_to_double (999 / 100))))
                      (jsnum_mul (items_subtotal its) (Num (round_to_double (8 / 100))))\<rparr> \<and>
           st' = (if modeParam \<noteq> Some ''buy-now''
                  then clearCart
                         (st\<lparr>fashion_store_orders :=
                               Some (JSON_stringify (orders @ [order_toJSON ord]))\<rparr>)
                  else st\<lparr>fashion_store_orders :=
                            Some (JSON_stringify (orders @ [order_toJSON ord]))\<rparr>)
                 \<lparr>buy_now_item := None\<rparr>"
  using assms
  unfolding processOrder_def saveOrder_def Let_def
  by (auto split: sum.splits)

lemma processOrder_cart_returns:
  assumes "modeParam \<noteq> Some ''buy-now''" and "getCart st = Inr cart" and "getOrders st = Inr orders"
  shows "\<exists>ord st'. processOrder now modeParam data st = Inr (ord, st') \<and>
           order_items ord = map CartLine cart \<and> getOrders st' = Inr (orders @ [order_toJSON ord])"
  using assms
  by (simp add: processOrder_def saveOrder_def Let_def getOrders_def clearCart_def
      JSON_stringify_def truthy_text_def JSON_parse_def)

lemma processOrder_buy_now_returns:
  assumes "buy_now_item st = None \<or> buy_now_item st = Some (Invalid []) \<or> buy_now_item st = Some (Json b)"
    and "getOrders st = Inr orders"
  shows "\<exists>ord st'. processOrder now (Some ''buy-now'') data st = Inr (ord, st') \<and>
           getOrders st' = Inr (orders @ [order_toJSON ord])"
  using assms
  by (auto simp: processOrder_def saveOrder_def Let_def getOrders_def
      JSON_stringify_def truthy_text_def JSON_parse_def)





text \<open>Doubles of the examples, computed.\<close>

lemma double_9_99: "round_to_double (999 / 100) = 5623870034678907 / 562949953421312"
  by code_simp

lemma double_9_99_again:
  "round_to_double (round_to_double (round_to_double (999 / 100))) = round_to_double (999 / 100)"
  by code_simp

lemma shirts_subtotal:
  "foldl
     (\<lambda>sum item. round_to_double (sum + round_to_double (item_price item * of_int (quantity item))))
     0 [shirt_line 2] = 40"
  by code_simp






lemma shirts_with_shipping:
  "round_to_double (40 + 5623870034678907 / 562949953421312) = 7035467042882847 / 140737488355328"
  by code_simp




text \<open>
  Claim C3, as the code has it. Every order that \<open>processOrder\<close> builds stores the shipping
  9.99, in cart mode as in buy-now mode and whatever its subtotal. The rule "9.99 when the
  subtotal is above 0, else 0" is that of the cart page only (\<open>renderCart\<close>), for the
  shipping it displays.
\<close>

theorem processOrder_shipping_flat:
  "(\<forall>ord st'. processOrder now modeParam data st = Inr (ord, st') \<longrightarrow>
      order_shipping ord = Num (round_to_double (999 / 100)) \<and>
      order_shipping (order_toJSON ord) = Number (round_to_double (999 / 100))) \<and>
   (\<forall>sub ship tot. renderCart st = Inr (CartContent sub ship tot) \<longrightarrow>
      ship = (if sub > 0 then round_to_double (999 / 100) else 0) \<and>
      tot = round_to_double (sub + ship))"
proof (intro conjI allI impI)
  fix ord st'
  assume "processOrder now modeParam data st = Inr (ord, st')"
  from processOrder_Inr [OF this]
  show "order_shipping ord = Num (round_to_double (999 / 100))"
    and "order_shipping (order_toJSON ord) = Number (round_to_double (999 / 100))"
    by (auto simp: order_toJSON_def JSON_number_def)
next
  fix sub ship tot
  assume "renderCart st = Inr (CartContent sub ship tot)"
  then show "ship = (if sub > 0 then round_to_double (999 / 100) else 0)"
    and "tot = round_to_double (sub + ship)"
    by (auto simp: renderCart_def Let_def split: sum.splits if_splits)
qed

theorem processOrder_shipping_flat_counterexample:
  "\<not> isl free_scarf_checkout \<and>
   order_mode (fst (projr free_scarf_checkout)) = ''cart'' \<and>
   order_subtotal (fst (projr free_scarf_checkout)) = Num 0 \<and>
   order_shipping (fst (projr free_scarf_checkout)) = Num (5623870034678907 / 562949953421312) \<and>
   order_shipping (order_toJSON (fst (projr free_scarf_checkout))) =
     Number (5623870034678907 / 562949953421312) \<and>
   order_shipping (order_toJSON (fst (projr free_scarf_checkout))) \<noteq> Number 0"
  by (simp add: free_scarf_checkout_def processOrder_def saveOrder_def getOrders_def getCart_def
      cart_storage_def empty_storage_def truthy_text_def JSON_parse_def JSON_stringify_def
      Let_def or_default_def items_subtotal_def scarf_line_def clearCart_def
      round_to_double_0 double_9_99 order_toJSON_def JSON_number_def)

theorem processOrder_shipping_flat_witness:
  "(\<exists>ord st'.
      processOrder example_clock None example_orderData (cart_storage [shirt_line 2]) = Inr (ord, st') \<and>
      order_shipping ord = Num (5623870034678907 / 562949953421312) \<and>
      order_shipping (order_toJSON ord) = Number (5623870034678907 / 562949953421312)) \<and>
   renderCart (cart_storage [shirt_line 2]) =
     Inr (CartContent 40 (5623870034678907 / 562949953421312)
            (7035467042882847 / 140737488355328)) \<and>
   renderCart (cart_storage [scarf_line 0 1]) = Inr (CartContent 0 0 0)"
proof -
  have c: "getCart (cart_storage [shirt_line 2]) = Inr [shirt_line 2]"
    by (simp add: getCart_def cart_storage_def empty_storage_def truthy_text_def JSON_parse_def)
  have o: "getOrders (cart_storage [shirt_line 2]) = Inr []"
    by (simp add: getOrders_def cart_storage_def empty_storage_def)
  from processOrder_cart_returns [OF _ c o, of None example_clock example_orderData]
  obtain ord st' where
    r: "processOrder example_clock None example_orderData (cart_storage [shirt_line 2]) = Inr (ord, st')"
    by auto
  have t: "getCartTotal (cart_storage [shirt_line 2]) = Inr 40"
    unfolding getCartTotal_def c by (simp only: sum.case shirts_subtotal)
  have "renderCart (cart_storage [shirt_line 2]) =
          Inr (CartContent 40 (round_to_double (999 / 100))
                 (round_to_double (40 + round_to_double (999 / 100))))"
    by (simp add: renderCart_def c t Let_def)
  then have shirt: "renderCart (cart_storage [shirt_line 2]) =
     Inr (CartContent 40 (5623870034678907 / 562949953421312)
            (7035467042882847 / 140737488355328))"
    unfolding double_9_99 shirts_with_shipping .
  have scarf: "renderCart (cart_storage [scarf_line 0 1]) = Inr (CartContent 0 0 0)"
    by (simp add: renderCart_def getCartTotal_def getCart_def cart_storage_def empty_storage_def
        truthy_text_def JSON_parse_def scarf_line_def Let_def round_to_double_0)
  from processOrder_shipping_flat [of example_clock None example_orderData "cart_storage [shirt_line 2]"] r
  have "order_shipping ord = Num (round_to_double (999 / 100)) \<and>
        order_shipping (order_toJSON ord) = Number (round_to_double (999 / 100))"
    by blast
  then have "order_shipping ord = Num (5623870034678907 / 562949953421312) \<and>
        order_shipping (order_toJSON ord) = Number (5623870034678907 / 562949953421312)"
    unfolding double_9_99 .
  with r shirt scarf show ?thesis by blast
qed

text \<open>
  Claim C4, as the code has it. An empty source is refused where the checkout page is
  rendered, not where the order is built: \<open>renderCartCheckout\<close> redirects to the cart page
  when the cart has no line, and \<open>renderBuyNowCheckout\<close> redirects to the shop when no
  buy-now item is stored (the key absent, or the empty string); both only read the storage.
  \<open>processOrder\<close> makes no such check: on a readable order log it builds an order and
  appends it to the log also when the cart is empty or no buy-now item is stored.
\<close>

theorem empty_source_refused_at_render_only:
  assumes "getOrders st = Inr orders"
  shows "(getCart st = Inr [] \<longrightarrow>
            renderCartCheckout st = Inr (RedirectTo ''cart.html'') \<and>
            (\<exists>ord st'. processOrder now None data st = Inr (ord, st') \<and> order_items ord = [] \<and>
               getOrders st' = Inr (orders @ [order_toJSON ord]))) \<and>
         (buy_now_item st = None \<or> buy_now_item st = Some (Invalid []) \<longrightarrow>
            renderBuyNowCheckout st = Inr (RedirectTo ''shop.html'') \<and>
            (\<exists>ord st'. processOrder now (Some ''buy-now'') data st = Inr (ord, st') \<and>
               getOrders st' = Inr (orders @ [order_toJSON ord])))"
proof (intro conjI impI)
  assume c: "getCart st = Inr []"
  then show "renderCartCheckout st = Inr (RedirectTo ''cart.html'')"
    by (simp add: renderCartCheckout_def)
  from processOrder_cart_returns [OF _ c assms, of None now data]
  show "\<exists>ord st'. processOrder now None data st = Inr (ord, st') \<and> order_items ord = [] \<and>
          getOrders st' = Inr (orders @ [order_toJSON ord])"
    by simp
next
  assume b: "buy_now_item st = None \<or> buy_now_item st = Some (Invalid [])"
  then show "renderBuyNowCheckout st = Inr (RedirectTo ''shop.html'')"
    by (auto simp: renderBuyNowCheckout_def truthy_text_def)
  from b have "buy_now_item st = None \<or> buy_now_item st = Some (Invalid []) \<or>
               buy_now_item st = Some (Json undefined)"
    by blast
  from processOrder_buy_now_returns [OF this assms, of now data]
  show "\<exists>ord st'. processOrder now (Some ''buy-now'') data st = Inr (ord, st') \<and>
          getOrders st' = Inr (orders @ [order_toJSON ord])" .
qed

theorem empty_source_refused_at_render_only_counterexample:
  "getCart empty_storage = Inr [] \<and> getOrders empty_storage = Inr [] \<and>
   \<not> isl empty_cart_checkout \<and>
   order_items (fst (projr empty_cart_checkout)) = [] \<and>
   order_total (fst (projr empty_cart_checkout)) = Num (round_to_double (999 / 100)) \<and>
   getOrders (snd (projr empty_cart_checkout)) = Inr [order_toJSON (fst (projr empty_cart_checkout))]"
  by (simp add: empty_cart_checkout_def processOrder_def saveOrder_def getOrders_def getCart_def
      empty_storage_def truthy_text_def JSON_parse_def JSON_stringify_def
      Let_def or_default_def items_subtotal_def clearCart_def round_to_double_0
      double_9_99_again)

theorem empty_source_refused_at_render_only_witness:
  "getOrders empty_storage = Inr [] \<and> getCart empty_storage = Inr [] \<and>
   buy_now_item empty_storage = None \<and>
   renderCartCheckout empty_storage = Inr (RedirectTo ''cart.html'') \<and>
   renderBuyNowCheckout empty_storage = Inr (RedirectTo ''shop.html'') \<and>
   (\<exists>ord st'. processOrder example_clock None example_orderData empty_storage = Inr (ord, st') \<and>
      order_items ord = [] \<and> getOrders st' = Inr [order_toJSON ord]) \<and>
   (\<exists>ord st'. processOrder example_clock (Some ''buy-now'') example_orderData empty_storage = Inr (ord, st') \<and>
      getOrders st' = Inr [order_toJSON ord])"
proof -
  have o: "getOrders empty_storage = Inr []" by (simp add: getOrders_def empty_storage_def)
  have c: "getCart empty_storage = Inr []" by (simp add: getCart_def empty_storage_def)
  have b: "buy_now_item empty_storage = None" by (simp add: empty_storage_def)
  from empty_source_refused_at_render_only [OF o, of example_clock example_orderData] c b o
  show ?thesis by simp
qed

text \<open>
  Claim C5. When \<open>processOrder\<close> has built an order: in cart mode (every mode parameter
  but \<open>buy-now\<close>) the stored cart is removed, so that the cart reads as empty; in buy-now
  mode the stored cart is what it was; in both modes the pending buy-now item is removed
  from session storage. The users and the session are never touched.
\<close>

theorem processOrder_clears_sources:
  assumes "processOrder now modeParam data st = Inr (ord, st')"
  shows "(modeParam \<noteq> Some ''buy-now'' \<longrightarrow> fashion_store_cart st' = None \<and> getCart st' = Inr []) \<and>
         (modeParam = Some ''buy-now'' \<longrightarrow> fashion_store_cart st' = fashion_store_cart st) \<and>
         (order_mode ord = ''cart'' \<longrightarrow> fashion_store_cart st' = None) \<and>
         (order_mode ord = ''buy-now'' \<longrightarrow> fashion_store_cart st' = fashion_store_cart st) \<and>
         buy_now_item st' = None \<and>
         fashion_store_users st' = fashion_store_users st \<and>
         fashion_store_session st' = fashion_store_session st"
proof -
  from processOrder_Inr [OF assms]
  obtain orders where
    mode: "order_mode ord = or_default modeParam ''cart''"
    and st': "st' = (if modeParam \<noteq> Some ''buy-now''
                  then clearCart (st\<lparr>fashion_store_orders := Some (JSON_stringify (orders @ [order_toJSON ord]))\<rparr>)
                  else st\<lparr>fashion_store_orders := Some (JSON_stringify (orders @ [order_toJSON ord]))\<rparr>)
                 \<lparr>buy_now_item := None\<rparr>"
    by auto
  have m1: "order_mode ord = ''cart'' \<longrightarrow> modeParam \<noteq> Some ''buy-now''"
    unfolding mode by (auto simp: or_default_def)
  have m2: "order_mode ord = ''buy-now'' \<longrightarrow> modeParam = Some ''buy-now''"
    unfolding mode by (auto simp: or_default_def split: option.splits if_splits)
  have a: "modeParam \<noteq> Some ''buy-now'' \<longrightarrow> fashion_store_cart st' = None \<and> getCart st' = Inr []"
    unfolding st' by (simp add: clearCart_def getCart_def)
  have b: "modeParam = Some ''buy-now'' \<longrightarrow> fashion_store_cart st' = fashion_store_cart st"
    unfolding st' by simp
  have c: "buy_now_item st' = None \<and> fashion_store_users st' = fashion_store_users st \<and>
           fashion_store_session st' = fashion_store_session st"
    unfolding st' by (simp add: clearCart_def)
  from a b c m1 m2 show ?thesis by blast
qed


theorem processOrder_clears_sources_witness:
  "(\<exists>ord st'.
      processOrder example_clock None example_orderData both_storage = Inr (ord, st') \<and>
      fashion_store_cart st' = None \<and> buy_now_item st' = None) \<and>
   (\<exists>ord st'.
      processOrder example_clock (Some ''buy-now'') example_orderData both_storage = Inr (ord, st') \<and>
      fashion_store_cart st' = Some (Json [shirt_line 2]) \<and> buy_now_item st' = None)"
proof -
  have c: "getCart both_storage = Inr [shirt_line 2]"
    by (simp add: getCart_def both_storage_def cart_storage_def empty_storage_def truthy_text_def JSON_parse_def)
  have o: "getOrders both_storage = Inr []"
    by (simp add: getOrders_def both_storage_def cart_storage_def empty_storage_def)
  have b: "buy_now_item both_storage = None \<or> buy_now_item both_storage = Some (Invalid []) \<or>
           buy_now_item both_storage = Some (Json example_buyNowItem)"
    by (simp add: both_storage_def)
  have k: "fashion_store_cart both_storage = Some (Json [shirt_line 2])"
    by (simp add: both_storage_def cart_storage_def)
  from processOrder_cart_returns [OF _ c o, of None example_clock example_orderData]
  obtain ord1 st1 where
    r1: "processOrder example_clock None example_orderData both_storage = Inr (ord1, st1)"
    by auto
  from processOrder_buy_now_returns [OF b o, of example_clock example_orderData]
  obtain ord2 st2 where
    r2: "processOrder example_clock (Some ''buy-now'') example_orderData both_storage = Inr (ord2, st2)"
    by auto
  from processOrder_clears_sources [OF r1]
  have "fashion_store_cart st1 = None \<and> buy_now_item st1 = None" by simp
  moreover from processOrder_clears_sources [OF r2] k
  have "fashion_store_cart st2 = Some (Json [shirt_line 2]) \<and> buy_now_item st2 = None" by simp
  ultimately show ?thesis using r1 r2 by blast
qed

section \<open>Properties of stored text\<close>

text \<open>
  Claim C6, as the code has it. Reading a key that is absent, or that holds the empty
  string, gives the empty result: the empty cart, the empty user list, no session, the
  empty order log, no buy-now item. Reading a key that holds a non-empty string that is not
  valid JSON ends with the \<open>SyntaxError\<close> of \<open>JSON.parse\<close>: no reader catches it, and it
  reaches the reader's caller, as in \<open>addToCart\<close>.
\<close>

theorem invalid_json_raises:
  "getCart (st\<lparr>fashion_store_cart := Some (Invalid s)\<rparr>) = (if s = [] then Inr [] else Inl SyntaxError) \<and>
   getUsers (st\<lparr>fashion_store_users := Some (Invalid s)\<rparr>) = (if s = [] then Inr [] else Inl SyntaxError) \<and>
   getSession (st\<lparr>fashion_store_session := Some (Invalid s)\<rparr>) =
     (if s = [] then Inr None else Inl SyntaxError) \<and>
   getOrders (st\<lparr>fashion_store_orders := Some (Invalid s)\<rparr>) = (if s = [] then Inr [] else Inl SyntaxError) \<and>
   renderBuyNowCheckout (st\<lparr>buy_now_item := Some (Invalid s)\<rparr>) =
     (if s = [] then Inr (RedirectTo ''shop.html'') else Inl SyntaxError) \<and>
   getCart (st\<lparr>fashion_store_cart := None\<rparr>) = Inr [] \<and>
   getUsers (st\<lparr>fashion_store_users := None\<rparr>) = Inr [] \<and>
   getSession (st\<lparr>fashion_store_session := None\<rparr>) = Inr None \<and>
   getOrders (st\<lparr>fashion_store_orders := None\<rparr>) = Inr [] \<and>
   renderBuyNowCheckout (st\<lparr>buy_now_item := None\<rparr>) = Inr (RedirectTo ''shop.html'') \<and>
   (s \<noteq> [] \<and> product_id p \<noteq> 0 \<longrightarrow>
      addToCart now (Some p) qty sz col (st\<lparr>fashion_store_cart := Some (Invalid s)\<rparr>) = Inl SyntaxError)"
  by (simp add: getCart_def getUsers_def getSession_def getOrders_def renderBuyNowCheckout_def
      addToCart_def truthy_text_def JSON_parse_def)

theorem invalid_json_raises_counterexample:
  "getCart (empty_storage\<lparr>fashion_store_cart := Some (Invalid ''[{not json'')\<rparr>) = Inl SyntaxError \<and>
   getUsers (empty_storage\<lparr>fashion_store_users := Some (Invalid ''[{not json'')\<rparr>) = Inl SyntaxError \<and>
   getSession (empty_storage\<lparr>fashion_store_session := Some (Invalid ''[{not json'')\<rparr>) = Inl SyntaxError \<and>
   addToCart example_clock (Some shirt) 1 None None
     (empty_storage\<lparr>fashion_store_cart := Some (Invalid ''[{not json'')\<rparr>) = Inl SyntaxError"
  by (simp add: getCart_def getUsers_def getSession_def addToCart_def truthy_text_def
      JSON_parse_def empty_storage_def shirt_def)

theorem invalid_json_raises_witness:
  "getCart (empty_storage\<lparr>fashion_store_cart := Some (Invalid ''{oops'')\<rparr>) = Inl SyntaxError \<and>
   getSession (empty_storage\<lparr>fashion_store_session := Some (Invalid ''{oops'')\<rparr>) = Inl SyntaxError \<and>
   ''{oops'' \<noteq> [] \<and> product_id shirt \<noteq> 0 \<and>
   addToCart example_clock (Some shirt) 1 None None
     (empty_storage\<lparr>fashion_store_cart := Some (Invalid ''{oops'')\<rparr>) = Inl SyntaxError \<and>
   getCart (empty_storage\<lparr>fashion_store_cart := Some (Invalid [])\<rparr>) = Inr [] \<and>
   getSession (empty_storage\<lparr>fashion_store_session := Some (Invalid [])\<rparr>) = Inr None"
  using invalid_json_raises [where st = empty_storage and s = "''{oops''" and p = shirt
                               and now = example_clock and qty = 1 and sz = None and col = None]
        invalid_json_raises [where st = empty_storage and s = "[]" and p = shirt
                               and now = example_clock and qty = 1 and sz = None and col = None]
  by (simp add: shirt_def)

section \<open>Properties of the authentication\<close>

lemma truthy_Some: "truthy (Some s) \<longleftrightarrow> s \<noteq> []"
  by (simp add: truthy_def)

lemma toLowerCase_empty: "toLowerCase s = [] \<longleftrightarrow> s = []"
  by (simp add: toLowerCase_def)

lemma passwordRegex_test_nonempty: "passwordRegex_test pw \<Longrightarrow> pw \<noteq> []"
  by (auto simp: passwordRegex_test_def)

text \<open>
  Claim C7, as the code has it. When the case-folded, trimmed email of a registration
  equals the email of a stored user, the registration fails with a validation message and
  the storage is what it was: no user is appended, no session is created. The message is
  "Email already registered" when the attempt passes the checks made before: no blank
  field, the password equal to its confirmation and meeting the complexity pattern.
\<close>

theorem handleRegister_duplicate_email:
  assumes users: "getUsers st = Inr users"
    and e: "reg_email form = Some e"
    and dup: "list_ex (\<lambda>user. user_email user = toLowerCase (trim e)) users"
  shows "(\<exists>msg. handleRegister now redirectParam form st = Inr (ShowAuthError msg, st)) \<and>
         (\<forall>n pw. reg_name form = Some n \<and> trim n \<noteq> [] \<and> trim e \<noteq> [] \<and>
                 reg_password form = Some pw \<and> reg_confirm_password form = Some pw \<and>
                 passwordRegex_test pw \<longrightarrow>
            handleRegister now redirectParam form st =
              Inr (ShowAuthError ''Email already registered'', st))"
proof (intro conjI allI impI)
  from users e dup
  show "\<exists>msg. handleRegister now redirectParam form st = Inr (ShowAuthError msg, st)"
    by (simp add: handleRegister_def Let_def)
next
  fix n pw
  assume v: "reg_name form = Some n \<and> trim n \<noteq> [] \<and> trim e \<noteq> [] \<and>
             reg_password form = Some pw \<and> reg_confirm_password form = Some pw \<and>
             passwordRegex_test pw"
  then have "pw \<noteq> []" by (simp add: passwordRegex_test_nonempty)
  with v users e dup
  show "handleRegister now redirectParam form st =
          Inr (ShowAuthError ''Email already registered'', st)"
    by (simp add: handleRegister_def Let_def truthy_Some toLowerCase_empty)
qed

theorem handleRegister_duplicate_email_counterexample:
  "getUsers (users_storage [ada]) = Inr [ada] \<and>
   user_email ada = toLowerCase (trim ''A@B.com'') \<and>
   handleRegister example_clock None
     \<lparr>reg_name = Some ''Bob'', reg_email = Some ''A@B.com'', reg_password = Some ''Secret1!x'',
      reg_confirm_password = Some ''Secret2!x''\<rparr> (users_storage [ada]) =
     Inr (ShowAuthError ''Passwords do not match'', users_storage [ada])"
  by (simp add: handleRegister_def getUsers_def users_storage_def empty_storage_def ada_def
      truthy_text_def JSON_parse_def Let_def truthy_def toLowerCase_def trim_def isWhiteSpace_def)

theorem handleRegister_duplicate_email_witness:
  "getUsers (users_storage [ada]) = Inr [ada] \<and>
   list_ex (\<lambda>user. user_email user = toLowerCase (trim '' A@B.com '')) [ada] \<and>
   trim ''Bob'' \<noteq> [] \<and> trim '' A@B.com '' \<noteq> [] \<and> passwordRegex_test ''Secret1!x'' \<and>
   handleRegister example_clock None
     \<lparr>reg_name = Some ''Bob'', reg_email = Some '' A@B.com '', reg_password = Some ''Secret1!x'',
      reg_confirm_password = Some ''Secret1!x''\<rparr> (users_storage [ada]) =
     Inr (ShowAuthError ''Email already registered'', users_storage [ada])"
proof -
  have u: "getUsers (users_storage [ada]) = Inr [ada]"
    by (simp add: getUsers_def users_storage_def empty_storage_def truthy_text_def JSON_parse_def)
  have d: "list_ex (\<lambda>user. user_email user = toLowerCase (trim '' A@B.com '')) [ada]"
    by (simp add: ada_def toLowerCase_def trim_def isWhiteSpace_def)
  have v: "trim ''Bob'' \<noteq> [] \<and> trim '' A@B.com '' \<noteq> [] \<and> passwordRegex_test ''Secret1!x''"
    by (simp add: trim_def isWhiteSpace_def passwordRegex_test_def isLower_def isUpper_def
        isDigit_def isLineTerminator_def)
  from handleRegister_duplicate_email
         [of "users_storage [ada]" "[ada]"
             "\<lparr>reg_name = Some ''Bob'', reg_email = Some '' A@B.com '',
               reg_password = Some ''Secret1!x'', reg_confirm_password = Some ''Secret1!x''\<rparr>"
             "'' A@B.com ''" example_clock None, OF u _ d] v
  have "handleRegister example_clock None
     \<lparr>reg_name = Some ''Bob'', reg_email = Some '' A@B.com '', reg_password = Some ''Secret1!x'',
      reg_confirm_password = Some ''Secret1!x''\<rparr> (users_storage [ada]) =
     Inr (ShowAuthError ''Email already registered'', users_storage [ada])"
    by simp
  with u d v show ?thesis by blast
qed

lemma find_distinct_key:
  "distinct (map f xs) \<Longrightarrow> u \<in> set xs \<Longrightarrow> find (\<lambda>x. f x = f u) xs = Some u"
proof (induction xs)
  case Nil
  then show ?case by simp
next
  case (Cons x xs)
  show ?case
  proof (cases "u = x")
    case True
    then show ?thesis by simp
  next
    case False
    with Cons.prems have u: "u \<in> set xs" by simp
    from Cons.prems have "f x \<notin> f ` set xs" by simp
    with u have "f x \<noteq> f u" by (metis imageI)
    moreover from Cons.prems have "distinct (map f xs)" by simp
    ultimately show ?thesis using Cons.IH u by simp
  qed
qed

text \<open>
  Claim C8, as the code has it. A login with a blank email or a blank password fails with
  "Please enter email and password". A login with both given, where no stored user has the
  case-folded, trimmed email together with exactly the given password, fails with the one
  message "Invalid email or password", whether the email is unknown or the password is
  wrong, and the storage is what it was: no session is created. When the first stored user
  with that email has the given password, a session for that user is saved; where the
  stored emails are distinct, that is any stored user with that email and password.
\<close>

theorem handleLogin_outcomes:
  assumes users: "getUsers st = Inr users"
    and e: "login_email form = Some e"
    and pw: "login_password form = Some pw"
  shows "(trim e = [] \<or> pw = [] \<longrightarrow>
            handleLogin now redirectParam form st =
              Inr (ShowAuthError ''Please enter email and password'', st)) \<and>
         (trim e \<noteq> [] \<and> pw \<noteq> [] \<and>
          \<not> list_ex (\<lambda>u. user_email u = toLowerCase (trim e) \<and> user_password u = pw) users \<longrightarrow>
            handleLogin now redirectParam form st =
              Inr (ShowAuthError ''Invalid email or password'', st)) \<and>
         (\<forall>u. trim e \<noteq> [] \<and> pw \<noteq> [] \<and>
               find (\<lambda>u. user_email u = toLowerCase (trim e)) users = Some u \<and>
               user_password u = pw \<longrightarrow>
            handleLogin now redirectParam form st =
              Inr (Redirect (or_default redirectParam ''../index.html''),
                   saveSession
                     \<lparr>session_email = user_email u, session_name = user_name u,
                       loginTime = toISOString now\<rparr> st)) \<and>
         (\<forall>u. trim e \<noteq> [] \<and> pw \<noteq> [] \<and> distinct (map user_email users) \<and> u \<in> set users \<and>
               user_email u = toLowerCase (trim e) \<and> user_password u = pw \<longrightarrow>
            handleLogin now redirectParam form st =
              Inr (Redirect (or_default redirectParam ''../index.html''),
                   saveSession
                     \<lparr>session_email = user_email u, session_name = user_name u,
                       loginTime = toISOString now\<rparr> st))"
proof -
  let ?email = "toLowerCase (trim e)"
  let ?ok = "\<lambda>u. Inr (Redirect (or_default redirectParam ''../index.html''),
                   saveSession
                     \<lparr>session_email = user_email u, session_name = user_name u,
                       loginTime = toISOString now\<rparr> st)"
  have blank: "handleLogin now redirectParam form st =
                 Inr (ShowAuthError ''Please enter email and password'', st)"
    if "trim e = [] \<or> pw = []"
    using that e pw by (auto simp: handleLogin_def Let_def truthy_Some toLowerCase_empty)
  have given: "handleLogin now redirectParam form st =
                 (case find (\<lambda>u. user_email u = ?email) users of
                    None \<Rightarrow> Inr (ShowAuthError ''Invalid email or password'', st)
                  | Some user \<Rightarrow>
                      if user_password user \<noteq> pw
                      then Inr (ShowAuthError ''Invalid email or password'', st)
                      else ?ok user)"
    if "trim e \<noteq> []" and "pw \<noteq> []"
    using that e pw users
    by (simp add: handleLogin_def Let_def truthy_Some toLowerCase_empty split: option.splits)
  have no_match: "handleLogin now redirectParam form st =
                    Inr (ShowAuthError ''Invalid email or password'', st)"
    if ne: "trim e \<noteq> []" "pw \<noteq> []"
      and none: "\<not> list_ex (\<lambda>u. user_email u = ?email \<and> user_password u = pw) users"
  proof (cases "find (\<lambda>u. user_email u = ?email) users")
    case None
    with given [OF ne] show ?thesis by simp
  next
    case (Some u)
    then have "user_email u = ?email" and "u \<in> set users"
      by (auto simp: find_Some_iff)
    with none have "user_password u \<noteq> pw" by (auto simp: list_ex_iff)
    with given [OF ne] Some show ?thesis by simp
  qed
  have first: "handleLogin now redirectParam form st = ?ok u"
    if "trim e \<noteq> []" "pw \<noteq> []" "find (\<lambda>u. user_email u = ?email) users = Some u"
       "user_password u = pw" for u
    using given [OF that(1,2)] that(3,4) by simp
  have any: "handleLogin now redirectParam form st = ?ok u"
    if ne: "trim e \<noteq> []" "pw \<noteq> []" and d: "distinct (map user_email users)"
      and u: "u \<in> set users" "user_email u = ?email" "user_password u = pw" for u
  proof -
    from find_distinct_key [OF d u(1)] u(2)
    have "find (\<lambda>x. user_email x = ?email) users = Some u" by simp
    from first [OF ne this u(3)] show ?thesis .
  qed
  from blank no_match first any show ?thesis by blast
qed

theorem handleLogin_outcomes_counterexample:
  "getUsers (users_storage [ada]) = Inr [ada] \<and>
   user_email ada \<noteq> toLowerCase (trim []) \<and>
   handleLogin example_clock None \<lparr>login_email = Some [], login_password = Some ''Passw0rd!''\<rparr>
     (users_storage [ada]) =
     Inr (ShowAuthError ''Please enter email and password'', users_storage [ada])"
  by (simp add: handleLogin_def getUsers_def users_storage_def empty_storage_def ada_def
      truthy_text_def JSON_parse_def Let_def truthy_def toLowerCase_def trim_def)

theorem handleLogin_outcomes_witness:
  "getUsers (users_storage [ada]) = Inr [ada] \<and>
   handleLogin example_clock None \<lparr>login_email = Some '' A@B.com'', login_password = Some ''Passw0rd!''\<rparr>
     (users_storage [ada]) =
     Inr (Redirect ''../index.html'',
          (users_storage [ada])
            \<lparr>fashion_store_session :=
               Some (Json \<lparr>session_email = ''a@b.com'', session_name = ''Ada'',
                           loginTime = ''2023-11-14T22:13:20.000Z''\<rparr>)\<rparr>) \<and>
   handleLogin example_clock None \<lparr>login_email = Some '' A@B.com'', login_password = Some ''passw0rd!''\<rparr>
     (users_storage [ada]) =
     Inr (ShowAuthError ''Invalid email or password'', users_storage [ada]) \<and>
   handleLogin example_clock None \<lparr>login_email = Some ''eve@b.com'', login_password = Some ''Passw0rd!''\<rparr>
     (users_storage [ada]) =
     Inr (ShowAuthError ''Invalid email or password'', users_storage [ada])"
proof -
  have u: "getUsers (users_storage [ada]) = Inr [ada]"
    by (simp add: getUsers_def users_storage_def empty_storage_def truthy_text_def JSON_parse_def)
  have t1: "trim '' A@B.com'' = ''A@B.com''" and t2: "trim ''eve@b.com'' = ''eve@b.com''"
    by (simp_all add: trim_def isWhiteSpace_def)
  have l1: "toLowerCase ''A@B.com'' = ''a@b.com''" and l2: "toLowerCase ''eve@b.com'' = ''eve@b.com''"
    by (simp_all add: toLowerCase_def)
  from handleLogin_outcomes
         [where st = "users_storage [ada]" and users = "[ada]" and e = "'' A@B.com''"
            and pw = "''Passw0rd!''" and now = example_clock and redirectParam = None
            and form = "\<lparr>login_email = Some '' A@B.com'', login_password = Some ''Passw0rd!''\<rparr>",
          OF u]
  have ok: "handleLogin example_clock None
              \<lparr>login_email = Some '' A@B.com'', login_password = Some ''Passw0rd!''\<rparr>
              (users_storage [ada]) =
            Inr (Redirect ''../index.html'',
                 (users_storage [ada])
                   \<lparr>fashion_store_session :=
                      Some (Json \<lparr>session_email = ''a@b.com'', session_name = ''Ada'',
                                  loginTime = ''2023-11-14T22:13:20.000Z''\<rparr>)\<rparr>)"
    by (simp add: t1 l1 ada_def or_default_def saveSession_def JSON_stringify_def example_clock_def)
  from handleLogin_outcomes
         [where st = "users_storage [ada]" and users = "[ada]" and e = "'' A@B.com''"
            and pw = "''passw0rd!''" and now = example_clock and redirectParam = None
            and form = "\<lparr>login_email = Some '' A@B.com'', login_password = Some ''passw0rd!''\<rparr>",
          OF u]
  have wrong: "handleLogin example_clock None
              \<lparr>login_email = Some '' A@B.com'', login_password = Some ''passw0rd!''\<rparr>
              (users_storage [ada]) =
            Inr (ShowAuthError ''Invalid email or password'', users_storage [ada])"
    by (simp add: t1 l1 ada_def)
  from handleLogin_outcomes
         [where st = "users_storage [ada]" and users = "[ada]" and e = "''eve@b.com''"
            and pw = "''Passw0rd!''" and now = example_clock and redirectParam = None
            and form = "\<lparr>login_email = Some ''eve@b.com'', login_password = Some ''Passw0rd!''\<rparr>",
          OF u]
  have unknown: "handleLogin example_clock None
              \<lparr>login_email = Some ''eve@b.com'', login_password = Some ''Passw0rd!''\<rparr>
              (users_storage [ada]) =
            Inr (ShowAuthError ''Invalid email or password'', users_storage [ada])"
    by (simp add: t2 l2 ada_def)
  from u ok wrong unknown show ?thesis by blast
qed

text \<open>
  Registration keeps the stored emails distinct: a registration that succeeds appends one
  user, whose email no stored user has.
\<close>

lemma getUsers_saved: "getUsers (saveSession s (saveUsers users st)) = Inr users"
  by (simp add: getUsers_def saveSession_def saveUsers_def JSON_stringify_def truthy_text_def
      JSON_parse_def)

lemma handleRegister_keeps_emails_distinct:
  assumes "getUsers st = Inr users" and "distinct (map user_email users)"
    and "handleRegister now redirectParam form st = Inr (out, st')"
  shows "\<exists>users'. getUsers st' = Inr users' \<and> distinct (map user_email users')"
  using assms unfolding handleRegister_def Let_def
  by (auto simp: getUsers_saved list_ex_iff split: if_splits) blast

end
